theory Spec2Isabelle
  imports Main "HOL-Library.Sublist" "HOL-Library.Multiset"
begin

section \<open>The stored data\<close>

text \<open>
  The controllers of \<^verbatim>\<open>backend/src/routes/post/controller.ts\<close> work on five tables
  through the Prisma client. Each table is a field of the record \<open>db\<close>. Only the columns
  that the controllers read or write in the reaction, favorite, deletion and leaderboard
  paths are kept; the text columns of a post (title, code snippets, description, tags)
  are carried as one field.

  The unique index \<^verbatim>\<open>userId_postId\<close> that \<^verbatim>\<open>findUnique\<close> relies on makes the
  interaction and the favorite tables functions of the pair (user id, post id), so they
  are a map and a set over that pair. The counters are Prisma integers; they are modelled
  as unbounded integers, since the column type is declared in the Prisma schema, which is
  not among the sources.
\<close>

type_synonym user_id = string
type_synonym post_id = string

record user =
  username :: string
  verified :: bool

record post_data =
  title :: string
  codeSnippet :: string
  jsCodeSnippet :: string
  description :: string
  tags :: "string list"

record post =
  authorId :: user_id
  likes :: int
  dislikes :: int
  data :: post_data

record userPostInteraction =
  liked :: bool
  disliked :: bool

record comment =
  content :: string
  comment_userId :: user_id
  comment_postId :: post_id

record db =
  users :: "user_id \<rightharpoonup> user"
  posts :: "post_id \<rightharpoonup> post"
  interactions :: "(user_id \<times> post_id) \<rightharpoonup> userPostInteraction"
  favorites :: "(user_id \<times> post_id) set"
  comments :: "comment list"

section \<open>Requests and responses\<close>

text \<open>
  \<^verbatim>\<open>req.userId\<close> is optional (it is set by the authentication middleware),
  \<^verbatim>\<open>req.params.id\<close> is the post id of the route and \<^verbatim>\<open>req.body.content\<close> the text of
  a comment. A response is the HTTP status with its JSON body: an error message, a plain
  message, or the message with the two counters read back from the post
  (\<^verbatim>\<open>post?.likes\<close>, \<^verbatim>\<open>post?.dislikes\<close>).
\<close>

record request =
  userId :: "user_id option"
  params_id :: post_id
  body_content :: string

datatype response =
    Err nat string
  | OkMessage nat string
  | OkCounters nat string "int option" "int option"

section \<open>The storage calls\<close>

text \<open>
  A Prisma call either returns or throws; a throw is the left injection. The calls throw
  for three reasons that depend on the stored data alone: the row to update or delete is
  missing, a unique index is violated, or a foreign key is violated. Whether the child
  tables carry enforced foreign keys to \<open>users\<close> and \<open>posts\<close> is fixed by the Prisma
  schema, which is not among the sources; it is the parameter \<open>fk\<close> of every call that
  creates a child row or deletes a post. \<open>Transient\<close> is a failure of the storage itself.
\<close>

datatype prisma_error = RecordNotFound | UniqueConstraint | ForeignKeyConstraint | Transient

datatype delta = Increment | Decrement | Unchanged

fun apply_delta :: "delta \<Rightarrow> int \<Rightarrow> int" where
  "apply_delta Increment n = n + 1"
| "apply_delta Decrement n = n - 1"
| "apply_delta Unchanged n = n"

definition refs_ok :: "bool \<Rightarrow> db \<Rightarrow> user_id \<Rightarrow> post_id \<Rightarrow> bool" where
  "refs_ok fk s uid pid = (fk \<longrightarrow> users s uid \<noteq> None \<and> posts s pid \<noteq> None)"

definition interaction_create ::
  "bool \<Rightarrow> db \<Rightarrow> user_id \<Rightarrow> post_id \<Rightarrow> bool \<Rightarrow> bool \<Rightarrow> prisma_error + db" where
  "interaction_create fk s uid pid l d =
     (if interactions s (uid, pid) \<noteq> None then Inl UniqueConstraint
      else if \<not> refs_ok fk s uid pid then Inl ForeignKeyConstraint
      else Inr (s\<lparr>interactions := (interactions s)((uid, pid) \<mapsto> \<lparr>liked = l, disliked = d\<rparr>)\<rparr>))"

definition interaction_update ::
  "db \<Rightarrow> user_id \<times> post_id \<Rightarrow> bool \<Rightarrow> bool \<Rightarrow> prisma_error + db" where
  "interaction_update s k l d =
     (case interactions s k of
        None \<Rightarrow> Inl RecordNotFound
      | Some i \<Rightarrow> Inr (s\<lparr>interactions := (interactions s)(k \<mapsto> i\<lparr>liked := l, disliked := d\<rparr>)\<rparr>))"

definition post_update :: "db \<Rightarrow> post_id \<Rightarrow> delta \<Rightarrow> delta \<Rightarrow> prisma_error + db" where
  "post_update s pid dl dd =
     (case posts s pid of
        None \<Rightarrow> Inl RecordNotFound
      | Some q \<Rightarrow>
          Inr (s\<lparr>posts := (posts s)(pid \<mapsto>
                 q\<lparr>likes := apply_delta dl (likes q), dislikes := apply_delta dd (dislikes q)\<rparr>)\<rparr>))"

definition favorite_create :: "bool \<Rightarrow> db \<Rightarrow> user_id \<Rightarrow> post_id \<Rightarrow> prisma_error + db" where
  "favorite_create fk s uid pid =
     (if (uid, pid) \<in> favorites s then Inl UniqueConstraint
      else if \<not> refs_ok fk s uid pid then Inl ForeignKeyConstraint
      else Inr (s\<lparr>favorites := insert (uid, pid) (favorites s)\<rparr>))"

definition favorite_delete :: "db \<Rightarrow> user_id \<Rightarrow> post_id \<Rightarrow> prisma_error + db" where
  "favorite_delete s uid pid =
     (if (uid, pid) \<notin> favorites s then Inl RecordNotFound
      else Inr (s\<lparr>favorites := favorites s - {(uid, pid)}\<rparr>))"

definition comment_create ::
  "bool \<Rightarrow> db \<Rightarrow> string \<Rightarrow> user_id \<Rightarrow> post_id \<Rightarrow> prisma_error + db" where
  "comment_create fk s c uid pid =
     (if \<not> refs_ok fk s uid pid then Inl ForeignKeyConstraint
      else Inr (s\<lparr>comments := comments s @
                  [\<lparr>content = c, comment_userId = uid, comment_postId = pid\<rparr>]\<rparr>))"

section \<open>The reaction controllers\<close>

text \<open>
  \<^verbatim>\<open>likePostController\<close> and \<^verbatim>\<open>dislikePostController\<close>. The test \<^verbatim>\<open>!userId\<close> holds
  for an absent id and for the empty string. The body runs inside \<^verbatim>\<open>try\<close>: a storage
  call that throws ends the request with status 500, and the writes made before it stay,
  since the calls are separate statements and not one transaction.
\<close>

definition like_reply :: "db \<Rightarrow> post_id \<Rightarrow> response" where
  "like_reply s pid =
     OkCounters 200 ''Post liked successful''
       (map_option likes (posts s pid)) (map_option dislikes (posts s pid))"

definition likePostController :: "bool \<Rightarrow> request \<Rightarrow> db \<Rightarrow> response \<times> db" where
  "likePostController fk req s =
     (case userId req of
        None \<Rightarrow> (Err 400 ''User ID is required.'', s)
      | Some uid \<Rightarrow>
          if uid = [] then (Err 400 ''User ID is required.'', s)
          else
            (case interactions s (uid, params_id req) of
               Some interaction \<Rightarrow>
                 if liked interaction
                 then (Err 400 ''You have already liked this post.'', s)
                 else
                   (case interaction_update s (uid, params_id req) True False of
                      Inl e \<Rightarrow> (Err 500 ''Failed to like the post.'', s)
                    | Inr s1 \<Rightarrow>
                        (case post_update s1 (params_id req) Increment
                                (if disliked interaction then Decrement else Unchanged) of
                           Inl e \<Rightarrow> (Err 500 ''Failed to like the post.'', s1)
                         | Inr s2 \<Rightarrow> (like_reply s2 (params_id req), s2)))
             | None \<Rightarrow>
                 (case interaction_create fk s uid (params_id req) True False of
                    Inl e \<Rightarrow> (Err 500 ''Failed to like the post.'', s)
                  | Inr s1 \<Rightarrow>
                      (case post_update s1 (params_id req) Increment Unchanged of
                         Inl e \<Rightarrow> (Err 500 ''Failed to like the post.'', s1)
                       | Inr s2 \<Rightarrow> (like_reply s2 (params_id req), s2)))))"

definition dislike_reply :: "db \<Rightarrow> post_id \<Rightarrow> response" where
  "dislike_reply s pid =
     OkCounters 200 ''Post disliked successful''
       (map_option likes (posts s pid)) (map_option dislikes (posts s pid))"

definition dislikePostController :: "bool \<Rightarrow> request \<Rightarrow> db \<Rightarrow> response \<times> db" where
  "dislikePostController fk req s =
     (case userId req of
        None \<Rightarrow> (Err 400 ''User ID is required.'', s)
      | Some uid \<Rightarrow>
          if uid = [] then (Err 400 ''User ID is required.'', s)
          else
            (case interactions s (uid, params_id req) of
               Some interaction \<Rightarrow>
                 if disliked interaction
                 then (Err 400 ''You have already disliked this post.'', s)
                 else
                   (case interaction_update s (uid, params_id req) False True of
                      Inl e \<Rightarrow> (Err 500 ''Failed to dislike the post.'', s)
                    | Inr s1 \<Rightarrow>
                        (case post_update s1 (params_id req)
                                (if liked interaction then Decrement else Unchanged) Increment of
                           Inl e \<Rightarrow> (Err 500 ''Failed to dislike the post.'', s1)
                         | Inr s2 \<Rightarrow> (dislike_reply s2 (params_id req), s2)))
             | None \<Rightarrow>
                 (case interaction_create fk s uid (params_id req) False True of
                    Inl e \<Rightarrow> (Err 500 ''Failed to dislike the post.'', s)
                  | Inr s1 \<Rightarrow>
                      (case post_update s1 (params_id req) Unchanged Increment of
                         Inl e \<Rightarrow> (Err 500 ''Failed to dislike the post.'', s1)
                       | Inr s2 \<Rightarrow> (dislike_reply s2 (params_id req), s2)))))"

text \<open>A sequence of reaction requests, each run on the state the previous one left.\<close>

datatype action = Like | Dislike

fun react :: "bool \<Rightarrow> action \<Rightarrow> request \<Rightarrow> db \<Rightarrow> response \<times> db" where
  "react fk Like req s = likePostController fk req s"
| "react fk Dislike req s = dislikePostController fk req s"

fun run :: "bool \<Rightarrow> (action \<times> request) list \<Rightarrow> db \<Rightarrow> response list \<times> db" where
  "run fk [] s = ([], s)"
| "run fk ((a, req) # ops) s =
     (case react fk a req s of
        (r, s1) \<Rightarrow> (case run fk ops s1 of (rs, s2) \<Rightarrow> (r # rs, s2)))"

definition like_dislike_like :: "request \<Rightarrow> (action \<times> request) list" where
  "like_dislike_like req = [(Like, req), (Dislike, req), (Like, req)]"

text \<open>The three states of a pair, read from the stored flags.\<close>

definition state_NONE :: "db \<Rightarrow> user_id \<Rightarrow> post_id \<Rightarrow> bool" where
  "state_NONE s uid pid = (interactions s (uid, pid) = None)"

definition state_LIKED :: "db \<Rightarrow> user_id \<Rightarrow> post_id \<Rightarrow> bool" where
  "state_LIKED s uid pid =
     (case interactions s (uid, pid) of None \<Rightarrow> False | Some i \<Rightarrow> liked i \<and> \<not> disliked i)"

definition state_DISLIKED :: "db \<Rightarrow> user_id \<Rightarrow> post_id \<Rightarrow> bool" where
  "state_DISLIKED s uid pid =
     (case interactions s (uid, pid) of None \<Rightarrow> False | Some i \<Rightarrow> disliked i \<and> \<not> liked i)"

definition likes_of :: "db \<Rightarrow> post_id \<Rightarrow> int option" where
  "likes_of s pid = map_option likes (posts s pid)"

definition dislikes_of :: "db \<Rightarrow> post_id \<Rightarrow> int option" where
  "dislikes_of s pid = map_option dislikes (posts s pid)"

text \<open>
  The invariants of the reaction tables: no row has both flags set; every row has exactly
  one flag set; and each counter of a stored post is the number of rows of that post with
  the flag set (the counters are a cache of the rows).
\<close>

definition mutex :: "db \<Rightarrow> bool" where
  "mutex s = (\<forall>k i. interactions s k = Some i \<longrightarrow> \<not> (liked i \<and> disliked i))"

definition exactly_one :: "db \<Rightarrow> bool" where
  "exactly_one s = (\<forall>k i. interactions s k = Some i \<longrightarrow> liked i \<noteq> disliked i)"

definition likers :: "db \<Rightarrow> post_id \<Rightarrow> user_id set" where
  "likers s pid = {u. \<exists>i. interactions s (u, pid) = Some i \<and> liked i}"

definition dislikers :: "db \<Rightarrow> post_id \<Rightarrow> user_id set" where
  "dislikers s pid = {u. \<exists>i. interactions s (u, pid) = Some i \<and> disliked i}"


section \<open>The reaction controllers under a failing storage call\<close>

text \<open>
  The row write and the counter update of \<^verbatim>\<open>likePostController\<close> and
  \<^verbatim>\<open>dislikePostController\<close> are separate awaited calls inside one \<^verbatim>\<open>try\<close>, with no
  transaction. As for \<^verbatim>\<open>deletePostController\<close>, \<open>fault\<close> is the position (from 0) of
  the storage call at which the storage itself fails, if any: 0 is the read of the
  interaction row, 1 the write of the row (update or create), 2 \<^verbatim>\<open>post.update\<close>, 3 the
  final read of the post. A failing call throws \<open>Transient\<close> and writes nothing; the
  \<^verbatim>\<open>catch\<close> answers 500 and the writes made before it stay. Without a fault these are
  the controllers above.
\<close>

definition at_call :: "nat option \<Rightarrow> nat \<Rightarrow> prisma_error + 'a \<Rightarrow> prisma_error + 'a" where
  "at_call fault k r = (if fault = Some k then Inl Transient else r)"

definition likePostController_at ::
  "bool \<Rightarrow> nat option \<Rightarrow> request \<Rightarrow> db \<Rightarrow> response \<times> db" where
  "likePostController_at fk fault req s =
     (case userId req of
        None \<Rightarrow> (Err 400 ''User ID is required.'', s)
      | Some uid \<Rightarrow>
          if uid = [] then (Err 400 ''User ID is required.'', s)
          else if fault = Some 0 then (Err 500 ''Failed to like the post.'', s)
          else
            (case interactions s (uid, params_id req) of
               Some interaction \<Rightarrow>
                 if liked interaction
                 then (Err 400 ''You have already liked this post.'', s)
                 else
                   (case at_call fault 1
                           (interaction_update s (uid, params_id req) True False) of
                      Inl e \<Rightarrow> (Err 500 ''Failed to like the post.'', s)
                    | Inr s1 \<Rightarrow>
                        (case at_call fault 2
                                (post_update s1 (params_id req) Increment
                                   (if disliked interaction then Decrement else Unchanged)) of
                           Inl e \<Rightarrow> (Err 500 ''Failed to like the post.'', s1)
                         | Inr s2 \<Rightarrow>
                             if fault = Some 3 then (Err 500 ''Failed to like the post.'', s2)
                             else (like_reply s2 (params_id req), s2)))
             | None \<Rightarrow>
                 (case at_call fault 1
                         (interaction_create fk s uid (params_id req) True False) of
                    Inl e \<Rightarrow> (Err 500 ''Failed to like the post.'', s)
                  | Inr s1 \<Rightarrow>
                      (case at_call fault 2
                              (post_update s1 (params_id req) Increment Unchanged) of
                         Inl e \<Rightarrow> (Err 500 ''Failed to like the post.'', s1)
                       | Inr s2 \<Rightarrow>
                           if fault = Some 3 then (Err 500 ''Failed to like the post.'', s2)
                           else (like_reply s2 (params_id req), s2)))))"

definition dislikePostController_at ::
  "bool \<Rightarrow> nat option \<Rightarrow> request \<Rightarrow> db \<Rightarrow> response \<times> db" where
  "dislikePostController_at fk fault req s =
     (case userId req of
        None \<Rightarrow> (Err 400 ''User ID is required.'', s)
      | Some uid \<Rightarrow>
          if uid = [] then (Err 400 ''User ID is required.'', s)
          else if fault = Some 0 then (Err 500 ''Failed to dislike the post.'', s)
          else
            (case interactions s (uid, params_id req) of
               Some interaction \<Rightarrow>
                 if disliked interaction
                 then (Err 400 ''You have already disliked this post.'', s)
                 else
                   (case at_call fault 1
                           (interaction_update s (uid, params_id req) False True) of
                      Inl e \<Rightarrow> (Err 500 ''Failed to dislike the post.'', s)
                    | Inr s1 \<Rightarrow>
                        (case at_call fault 2
                                (post_update s1 (params_id req)
                                   (if liked interaction then Decrement else Unchanged)
                                   Increment) of
                           Inl e \<Rightarrow> (Err 500 ''Failed to dislike the post.'', s1)
                         | Inr s2 \<Rightarrow>
                             if fault = Some 3 then (Err 500 ''Failed to dislike the post.'', s2)
                             else (dislike_reply s2 (params_id req), s2)))
             | None \<Rightarrow>
                 (case at_call fault 1
                         (interaction_create fk s uid (params_id req) False True) of
                    Inl e \<Rightarrow> (Err 500 ''Failed to dislike the post.'', s)
                  | Inr s1 \<Rightarrow>
                      (case at_call fault 2
                              (post_update s1 (params_id req) Unchanged Increment) of
                         Inl e \<Rightarrow> (Err 500 ''Failed to dislike the post.'', s1)
                       | Inr s2 \<Rightarrow>
                           if fault = Some 3 then (Err 500 ''Failed to dislike the post.'', s2)
                           else (dislike_reply s2 (params_id req), s2)))))"

fun react_at :: "bool \<Rightarrow> action \<Rightarrow> nat option \<Rightarrow> request \<Rightarrow> db \<Rightarrow> response \<times> db" where
  "react_at fk Like fault req s = likePostController_at fk fault req s"
| "react_at fk Dislike fault req s = dislikePostController_at fk fault req s"

fun run_at ::
  "bool \<Rightarrow> (action \<times> nat option \<times> request) list \<Rightarrow> db \<Rightarrow> response list \<times> db" where
  "run_at fk [] s = ([], s)"
| "run_at fk ((a, fault, req) # ops) s =
     (case react_at fk a fault req s of
        (r, s1) \<Rightarrow> (case run_at fk ops s1 of (rs, s2) \<Rightarrow> (r # rs, s2)))"


section \<open>The favorite and comment controllers\<close>

text \<open>
  \<^verbatim>\<open>favoritePostController\<close>, \<^verbatim>\<open>unfavoritePostController\<close> and
  \<^verbatim>\<open>createCommentController\<close>. Each reads the user and tests \<^verbatim>\<open>!user?.verified\<close>,
  which holds for a missing user as well as for an unverified one. The JSON nesting of an
  error body (\<^verbatim>\<open>{error: m}\<close> or \<^verbatim>\<open>{error: {message: m}}\<close>) is not kept, only the
  message; the comment returned with status 201 is not kept either.
\<close>

definition user_verified :: "db \<Rightarrow> user_id \<Rightarrow> bool" where
  "user_verified s uid = (case users s uid of None \<Rightarrow> False | Some u \<Rightarrow> verified u)"

definition favoritePostController :: "bool \<Rightarrow> request \<Rightarrow> db \<Rightarrow> response \<times> db" where
  "favoritePostController fk req s =
     (case userId req of
        None \<Rightarrow> (Err 400 ''User ID is required.'', s)
      | Some uid \<Rightarrow>
          if uid = [] then (Err 400 ''User ID is required.'', s)
          else if \<not> user_verified s uid then (Err 403 ''User is not verified!'', s)
          else if (uid, params_id req) \<in> favorites s
          then (Err 400 ''You have already favorited this post.'', s)
          else
            (case favorite_create fk s uid (params_id req) of
               Inl e \<Rightarrow> (Err 500 ''Failed to favorite the post.'', s)
             | Inr s1 \<Rightarrow> (OkMessage 200 ''Post favorited successfully'', s1)))"

definition unfavoritePostController :: "bool \<Rightarrow> request \<Rightarrow> db \<Rightarrow> response \<times> db" where
  "unfavoritePostController fk req s =
     (case userId req of
        None \<Rightarrow> (Err 400 ''User ID is required.'', s)
      | Some uid \<Rightarrow>
          if uid = [] then (Err 400 ''User ID is required.'', s)
          else if \<not> user_verified s uid then (Err 403 ''User is not verified!'', s)
          else if (uid, params_id req) \<notin> favorites s
          then (Err 400 ''You have not favorited this post.'', s)
          else
            (case favorite_delete s uid (params_id req) of
               Inl e \<Rightarrow> (Err 500 ''Failed to unfavorite the post.'', s)
             | Inr s1 \<Rightarrow> (OkMessage 200 ''Post unfavorited successfully'', s1)))"

definition createCommentController :: "bool \<Rightarrow> request \<Rightarrow> db \<Rightarrow> response \<times> db" where
  "createCommentController fk req s =
     (case userId req of
        None \<Rightarrow> (Err 403 ''Invalid user'', s)
      | Some uid \<Rightarrow>
          if uid = [] then (Err 403 ''Invalid user'', s)
          else if \<not> user_verified s uid then (Err 403 ''User is not verified!'', s)
          else
            (case comment_create fk s (body_content req) uid (params_id req) of
               Inl e \<Rightarrow> (Err 500 ''An unexpected exception occurred!'', s)
             | Inr s1 \<Rightarrow> (OkMessage 201 ''Successfully created comment!'', s1)))"

datatype fav_action = Favorite | Unfavorite

fun fav_react :: "bool \<Rightarrow> fav_action \<Rightarrow> request \<Rightarrow> db \<Rightarrow> response \<times> db" where
  "fav_react fk Favorite req s = favoritePostController fk req s"
| "fav_react fk Unfavorite req s = unfavoritePostController fk req s"

fun fav_run :: "bool \<Rightarrow> (fav_action \<times> request) list \<Rightarrow> db \<Rightarrow> response list \<times> db" where
  "fav_run fk [] s = ([], s)"
| "fav_run fk ((a, req) # ops) s =
     (case fav_react fk a req s of
        (r, s1) \<Rightarrow> (case fav_run fk ops s1 of (rs, s2) \<Rightarrow> (r # rs, s2)))"

section \<open>Deleting a post\<close>

text \<open>
  \<^verbatim>\<open>deletePostController\<close> makes five storage calls in a row: it reads the post, deletes
  the interactions, the comments and the favorites of the post, and deletes the post.
  There is no \<^verbatim>\<open>$transaction\<close> around them. To state what a failing call leaves
  behind, the controller takes \<open>fault\<close>: the position (from 0) of the call at which the
  storage fails, if any. A failing call throws and writes nothing. With enforced foreign
  keys, deleting a post that still has child rows is refused.
\<close>

definition interaction_deleteMany :: "db \<Rightarrow> post_id \<Rightarrow> db" where
  "interaction_deleteMany s pid =
     s\<lparr>interactions := (\<lambda>k. if snd k = pid then None else interactions s k)\<rparr>"

definition comment_deleteMany :: "db \<Rightarrow> post_id \<Rightarrow> db" where
  "comment_deleteMany s pid =
     s\<lparr>comments := filter (\<lambda>c. comment_postId c \<noteq> pid) (comments s)\<rparr>"

definition favorite_deleteMany :: "db \<Rightarrow> post_id \<Rightarrow> db" where
  "favorite_deleteMany s pid = s\<lparr>favorites := {k \<in> favorites s. snd k \<noteq> pid}\<rparr>"

definition has_children :: "db \<Rightarrow> post_id \<Rightarrow> bool" where
  "has_children s pid =
     ((\<exists>u. interactions s (u, pid) \<noteq> None) \<or>
      (\<exists>c \<in> set (comments s). comment_postId c = pid) \<or>
      (\<exists>k \<in> favorites s. snd k = pid))"

definition post_delete :: "bool \<Rightarrow> db \<Rightarrow> post_id \<Rightarrow> prisma_error + db" where
  "post_delete fk s pid =
     (if posts s pid = None then Inl RecordNotFound
      else if fk \<and> has_children s pid then Inl ForeignKeyConstraint
      else Inr (s\<lparr>posts := (posts s)(pid := None)\<rparr>))"

definition deletePostController ::
  "bool \<Rightarrow> nat option \<Rightarrow> request \<Rightarrow> db \<Rightarrow> response \<times> db" where
  "deletePostController fk fault req s =
     (case userId req of
        None \<Rightarrow> (Err 403 ''Invalid user'', s)
      | Some uid \<Rightarrow>
          if uid = [] then (Err 403 ''Invalid user'', s)
          else if fault = Some 0 then (Err 500 ''An unexpected error occurred'', s)
          else
            (case posts s (params_id req) of
               None \<Rightarrow> (Err 404 ''Post not found'', s)
             | Some post \<Rightarrow>
                 if authorId post \<noteq> uid
                 then (Err 403 ''You are not authorized to delete this post'', s)
                 else if fault = Some 1 then (Err 500 ''An unexpected error occurred'', s)
                 else
                   (let s1 = interaction_deleteMany s (params_id req) in
                    if fault = Some 2 then (Err 500 ''An unexpected error occurred'', s1)
                    else
                      (let s2 = comment_deleteMany s1 (params_id req) in
                       if fault = Some 3 then (Err 500 ''An unexpected error occurred'', s2)
                       else
                         (let s3 = favorite_deleteMany s2 (params_id req) in
                          if fault = Some 4 then (Err 500 ''An unexpected error occurred'', s3)
                          else
                            (case post_delete fk s3 (params_id req) of
                               Inl e \<Rightarrow> (Err 500 ''An unexpected error occurred'', s3)
                             | Inr s4 \<Rightarrow> (OkMessage 200 ''Post deleted successfully'', s4)))))))"

section \<open>The leaderboard\<close>

text \<open>
  \<^verbatim>\<open>getLeaderboardController\<close> works on the rows that \<^verbatim>\<open>prisma.user.findMany\<close>
  returns, in the order it returns them: the id and the name of each user with the
  \<^verbatim>\<open>likes\<close> of each of the user's posts; \<^verbatim>\<open>_count.posts\<close> is the number of these
  posts. \<^verbatim>\<open>Array.prototype.sort\<close> is the stable sort of ECMAScript by a comparator:
  \<open>a\<close> goes before \<open>b\<close> when the comparator is negative, and two elements that compare
  equal keep their order; here it is an insertion sort that puts an element in front of
  the first one it does not have to follow.
\<close>

record user_row =
  ur_id :: user_id
  ur_username :: string
  ur_posts :: "int list"

record user_likes =
  ul_id :: user_id
  ul_username :: string
  ul_postCount :: nat
  ul_totalLikes :: int

record leaderboard_entry =
  rank :: nat
  lb_userId :: user_id
  lb_username :: string
  postCount :: nat
  totalLikes :: int

fun insert_by :: "('a \<Rightarrow> 'a \<Rightarrow> int) \<Rightarrow> 'a \<Rightarrow> 'a list \<Rightarrow> 'a list" where
  "insert_by cmp x [] = [x]"
| "insert_by cmp x (y # ys) =
     (if cmp x y \<le> 0 then x # y # ys else y # insert_by cmp x ys)"

definition array_sort :: "('a \<Rightarrow> 'a \<Rightarrow> int) \<Rightarrow> 'a list \<Rightarrow> 'a list" where
  "array_sort cmp xs = foldr (insert_by cmp) xs []"

definition userLikes :: "user_row list \<Rightarrow> user_likes list" where
  "userLikes leaderboard =
     map (\<lambda>user. \<lparr>ul_id = ur_id user, ul_username = ur_username user,
                  ul_postCount = length (ur_posts user),
                  ul_totalLikes = foldl (\<lambda>sum l. sum + l) 0 (ur_posts user)\<rparr>) leaderboard"

definition top10Users :: "user_row list \<Rightarrow> user_likes list" where
  "top10Users leaderboard =
     take 10 (array_sort (\<lambda>a b. ul_totalLikes b - ul_totalLikes a) (userLikes leaderboard))"

definition getLeaderboardController :: "user_row list \<Rightarrow> leaderboard_entry list" where
  "getLeaderboardController leaderboard =
     map (\<lambda>(index, user).
            \<lparr>rank = index + 1, lb_userId = ul_id user, lb_username = ul_username user,
             postCount = ul_postCount user, totalLikes = ul_totalLikes user\<rparr>)
         (zip [0 ..< length (top10Users leaderboard)] (top10Users leaderboard))"

definition entry_user :: "leaderboard_entry \<Rightarrow> user_likes" where
  "entry_user e = \<lparr>ul_id = lb_userId e, ul_username = lb_username e,
                  ul_postCount = postCount e, ul_totalLikes = totalLikes e\<rparr>"

section \<open>Example data\<close>

definition no_post_data :: post_data where
  "no_post_data =
     \<lparr>title = [], codeSnippet = [], jsCodeSnippet = [], description = [], tags = []\<rparr>"

definition req_of :: "user_id \<Rightarrow> post_id \<Rightarrow> request" where
  "req_of u p = \<lparr>userId = Some u, params_id = p, body_content = []\<rparr>"

definition db0 :: db where
  "db0 = \<lparr>users = [''alice'' \<mapsto> \<lparr>username = ''alice'', verified = True\<rparr>,
                  ''bob'' \<mapsto> \<lparr>username = ''bob'', verified = False\<rparr>],
          posts = [''p1'' \<mapsto> \<lparr>authorId = ''alice'', likes = 0, dislikes = 0, data = no_post_data\<rparr>],
          interactions = Map.empty, favorites = {}, comments = []\<rparr>"

definition db_liked :: db where
  "db_liked =
     db0\<lparr>posts := [''p1'' \<mapsto> \<lparr>authorId = ''alice'', likes = 1, dislikes = 0, data = no_post_data\<rparr>],
         interactions := [(''alice'', ''p1'') \<mapsto> \<lparr>liked = True, disliked = False\<rparr>]\<rparr>"

definition db_disliked :: db where
  "db_disliked =
     db0\<lparr>posts := [''p1'' \<mapsto> \<lparr>authorId = ''alice'', likes = 0, dislikes = 1, data = no_post_data\<rparr>],
         interactions := [(''alice'', ''p1'') \<mapsto> \<lparr>liked = False, disliked = True\<rparr>]\<rparr>"

definition db_full :: db where
  "db_full =
     db_liked\<lparr>favorites := {(''alice'', ''p1'')},
              comments := [\<lparr>content = ''nice'', comment_userId = ''alice'', comment_postId = ''p1''\<rparr>]\<rparr>"

definition abc_rows :: "user_row list" where
  "abc_rows = [\<lparr>ur_id = ''A'', ur_username = ''a'', ur_posts = [5]\<rparr>,
               \<lparr>ur_id = ''B'', ur_username = ''b'', ur_posts = [10]\<rparr>,
               \<lparr>ur_id = ''C'', ur_username = ''c'', ur_posts = [4, 6]\<rparr>]"

lemmas ctrl_defs = likePostController_def dislikePostController_def interaction_create_def
  interaction_update_def post_update_def refs_ok_def like_reply_def dislike_reply_def

lemmas example_defs = db0_def db_liked_def db_disliked_def db_full_def req_of_def no_post_data_def

section \<open>Shared facts about the reaction controllers\<close>

lemma interaction_flags:
  "(i::userPostInteraction)\<lparr>liked := l, disliked := d\<rparr> = \<lparr>liked = l, disliked = d\<rparr>"
  by (cases i) simp

lemma run_Cons_snd:
  "snd (run fk ((a, req) # ops) s) = snd (run fk ops (snd (react fk a req s)))"
  by (simp split: prod.splits)

lemma like_mutex: "mutex s \<Longrightarrow> mutex (snd (likePostController fk req s))"
  unfolding mutex_def
  by (auto simp: ctrl_defs split: option.splits if_splits)

lemma dislike_mutex: "mutex s \<Longrightarrow> mutex (snd (dislikePostController fk req s))"
  unfolding mutex_def
  by (auto simp: ctrl_defs split: option.splits if_splits)

lemma react_mutex: "mutex s \<Longrightarrow> mutex (snd (react fk a req s))"
  by (cases a) (simp_all add: like_mutex dislike_mutex)

lemma run_mutex: "mutex s \<Longrightarrow> mutex (snd (run fk ops s))"
proof (induction ops arbitrary: s)
  case Nil
  then show ?case by simp
next
  case (Cons op ops)
  obtain a req where op: "op = (a, req)" by (cases op)
  have "mutex (snd (react fk a req s))" using Cons.prems by (rule react_mutex)
  then have "mutex (snd (run fk ops (snd (react fk a req s))))" by (rule Cons.IH)
  then show ?case by (simp only: op run_Cons_snd)
qed

lemma like_written:
  "interactions (snd (likePostController fk req s)) k = Some i \<Longrightarrow>
   interactions s k \<noteq> Some i \<Longrightarrow> i = \<lparr>liked = True, disliked = False\<rparr>"
  by (auto simp: ctrl_defs interaction_flags split: option.splits if_splits)

lemma dislike_written:
  "interactions (snd (dislikePostController fk req s)) k = Some i \<Longrightarrow>
   interactions s k \<noteq> Some i \<Longrightarrow> i = \<lparr>liked = False, disliked = True\<rparr>"
  by (auto simp: ctrl_defs interaction_flags split: option.splits if_splits)

lemma react_written:
  "interactions (snd (react fk a req s)) k = Some i \<Longrightarrow>
   interactions s k \<noteq> Some i \<Longrightarrow> liked i \<noteq> disliked i"
proof (cases a)
  case Like
  assume "interactions (snd (react fk a req s)) k = Some i" "interactions s k \<noteq> Some i"
  with Like have "i = \<lparr>liked = True, disliked = False\<rparr>" using like_written by simp
  then show ?thesis by simp
next
  case Dislike
  assume "interactions (snd (react fk a req s)) k = Some i" "interactions s k \<noteq> Some i"
  with Dislike have "i = \<lparr>liked = False, disliked = True\<rparr>" using dislike_written by simp
  then show ?thesis by simp
qed

lemma react_exactly_one: "exactly_one s \<Longrightarrow> exactly_one (snd (react fk a req s))"
  unfolding exactly_one_def using react_written by blast

lemma run_exactly_one: "exactly_one s \<Longrightarrow> exactly_one (snd (run fk ops s))"
proof (induction ops arbitrary: s)
  case Nil
  then show ?case by simp
next
  case (Cons op ops)
  obtain a req where op: "op = (a, req)" by (cases op)
  have "exactly_one (snd (react fk a req s))" using Cons.prems by (rule react_exactly_one)
  then have "exactly_one (snd (run fk ops (snd (react fk a req s))))" by (rule Cons.IH)
  then show ?case by (simp only: op run_Cons_snd)
qed

subsection \<open>The counters count the rows\<close>





lemma likers_posts_upd [simp]: "likers (s\<lparr>posts := ps\<rparr>) pid = likers s pid"
  by (simp add: likers_def)

lemma dislikers_posts_upd [simp]: "dislikers (s\<lparr>posts := ps\<rparr>) pid = dislikers s pid"
  by (simp add: dislikers_def)












subsection \<open>Single transitions\<close>


lemma disliked_to_liked:
  "userId req = Some uid \<Longrightarrow> uid \<noteq> [] \<Longrightarrow> state_DISLIKED s uid (params_id req) \<Longrightarrow>
   posts s (params_id req) = Some q \<Longrightarrow>
   likePostController fk req s =
     (OkCounters 200 ''Post liked successful'' (Some (likes q + 1)) (Some (dislikes q - 1)),
      s\<lparr>interactions :=
          (interactions s)((uid, params_id req) \<mapsto> \<lparr>liked = True, disliked = False\<rparr>),
        posts :=
          (posts s)(params_id req \<mapsto> q\<lparr>likes := likes q + 1, dislikes := dislikes q - 1\<rparr>)\<rparr>)"
  by (auto simp: ctrl_defs state_DISLIKED_def interaction_flags split: option.splits)

lemma none_to_liked:
  "userId req = Some uid \<Longrightarrow> uid \<noteq> [] \<Longrightarrow> state_NONE s uid (params_id req) \<Longrightarrow>
   users s uid = Some usr \<Longrightarrow> posts s (params_id req) = Some q \<Longrightarrow>
   likePostController fk req s =
     (OkCounters 200 ''Post liked successful'' (Some (likes q + 1)) (Some (dislikes q)),
      s\<lparr>interactions :=
          (interactions s)((uid, params_id req) \<mapsto> \<lparr>liked = True, disliked = False\<rparr>),
        posts := (posts s)(params_id req \<mapsto> q\<lparr>likes := likes q + 1\<rparr>)\<rparr>)"
  by (auto simp: ctrl_defs state_NONE_def split: option.splits)

lemma already_liked:
  "userId req = Some uid \<Longrightarrow> uid \<noteq> [] \<Longrightarrow> state_LIKED s uid (params_id req) \<Longrightarrow>
   likePostController fk req s = (Err 400 ''You have already liked this post.'', s)"
  by (auto simp: ctrl_defs state_LIKED_def split: option.splits)

lemma already_disliked:
  "userId req = Some uid \<Longrightarrow> uid \<noteq> [] \<Longrightarrow> state_DISLIKED s uid (params_id req) \<Longrightarrow>
   dislikePostController fk req s = (Err 400 ''You have already disliked this post.'', s)"
  by (auto simp: ctrl_defs state_DISLIKED_def split: option.splits)



subsection \<open>A failing storage call\<close>


lemma likePostController_at_None:
  "likePostController_at fk None req s = likePostController fk req s"
  by (simp add: likePostController_at_def likePostController_def at_call_def
      split: option.splits sum.splits)

lemma dislikePostController_at_None:
  "dislikePostController_at fk None req s = dislikePostController fk req s"
  by (simp add: dislikePostController_at_def dislikePostController_def at_call_def
      split: option.splits sum.splits)

lemma run_at_None: "run_at fk (map (\<lambda>(a, req). (a, None, req)) ops) s = run fk ops s"
proof (induction ops arbitrary: s)
  case Nil
  then show ?case by simp
next
  case (Cons op ops)
  obtain a req where op: "op = (a, req)" by (cases op)
  have "react_at fk a None req s = react fk a req s"
    by (cases a) (simp_all add: likePostController_at_None dislikePostController_at_None)
  then show ?case using Cons.IH by (simp add: op split: prod.splits)
qed








section \<open>The reaction state machine\<close>

text \<open>
  Claim C1. For every pair of a user and a post and every sequence of like and dislike
  requests, no stored interaction row ever has \<open>liked\<close> and \<open>disliked\<close> both true: a
  table without such a row stays without one after each single like or dislike request,
  whatever its outcome, and hence after every prefix of every sequence of requests.
\<close>

theorem mutual_exclusion_preserved:
  "mutex s \<Longrightarrow>
   mutex (snd (react fk a req s)) \<and> (\<forall>n. mutex (snd (run fk (take n ops) s)))"
  by (simp add: react_mutex run_mutex)

theorem mutual_exclusion_preserved_witness:
  "mutex db0 \<and>
   mutex (snd (react True Dislike (req_of ''alice'' ''p1'') db0)) \<and>
   mutex (snd (run True (take 2 [(Like, req_of ''alice'' ''p1''),
                                 (Dislike, req_of ''alice'' ''p1''),
                                 (Like, req_of ''bob'' ''p1'')]) db0))"
proof -
  have h: "mutex db0" by (simp add: mutex_def db0_def)
  show ?thesis
    using h mutual_exclusion_preserved [OF h, of True Dislike "req_of ''alice'' ''p1''"
        "[(Like, req_of ''alice'' ''p1''), (Dislike, req_of ''alice'' ''p1''),
          (Like, req_of ''bob'' ''p1'')]"]
    by blast
qed




text \<open>
  Claim C4. For a pair in state LIKED, like answers 400 "You have already liked this
  post." and returns the stored data as they were: no row and no counter changes.
  Likewise dislike on a pair in state DISLIKED answers 400 "You have already disliked
  this post." and changes nothing.
\<close>

theorem already_reacted_no_write:
  "userId req = Some uid \<Longrightarrow> uid \<noteq> [] \<Longrightarrow>
   (state_LIKED s uid (params_id req) \<longrightarrow>
      likePostController fk req s = (Err 400 ''You have already liked this post.'', s)) \<and>
   (state_DISLIKED s uid (params_id req) \<longrightarrow>
      dislikePostController fk req s = (Err 400 ''You have already disliked this post.'', s))"
  by (simp add: already_liked already_disliked)

theorem already_reacted_no_write_witness:
  "state_LIKED db_liked ''alice'' ''p1'' \<and>
   likePostController True (req_of ''alice'' ''p1'') db_liked =
     (Err 400 ''You have already liked this post.'', db_liked) \<and>
   state_DISLIKED db_disliked ''alice'' ''p1'' \<and>
   dislikePostController True (req_of ''alice'' ''p1'') db_disliked =
     (Err 400 ''You have already disliked this post.'', db_disliked)"
proof -
  have l: "state_LIKED db_liked ''alice'' (params_id (req_of ''alice'' ''p1''))"
    by (simp add: state_LIKED_def example_defs)
  have d: "state_DISLIKED db_disliked ''alice'' (params_id (req_of ''alice'' ''p1''))"
    by (simp add: state_DISLIKED_def example_defs)
  have u: "userId (req_of ''alice'' ''p1'') = Some ''alice''" "''alice'' \<noteq> []"
    by (simp_all add: req_of_def)
  show ?thesis
    using l d already_reacted_no_write [OF u, of db_liked True]
      already_reacted_no_write [OF u, of db_disliked True]
    by (simp add: req_of_def)
qed

text \<open>
  The sequence like, dislike, like does not net \<open>+1\<close> likes and \<open>0\<close> dislikes from
  every start state. From LIKED the first like is rejected and the sequence ends with the
  likes where they started; from DISLIKED it ends with the dislikes one below where they
  started.
\<close>

theorem flip_flop_any_state_counterexample:
  "state_LIKED db_liked ''alice'' ''p1'' \<and>
   likes_of db_liked ''p1'' = Some 1 \<and>
   likes_of (snd (run True (like_dislike_like (req_of ''alice'' ''p1'')) db_liked)) ''p1''
     \<noteq> Some (1 + 1) \<and>
   state_DISLIKED db_disliked ''alice'' ''p1'' \<and>
   dislikes_of db_disliked ''p1'' = Some 1 \<and>
   dislikes_of (snd (run True (like_dislike_like (req_of ''alice'' ''p1'')) db_disliked)) ''p1''
     \<noteq> Some 1"
  by (simp add: ctrl_defs state_LIKED_def state_DISLIKED_def likes_of_def dislikes_of_def
      like_dislike_like_def example_defs)

text \<open>
  Claim C7, as amended. For an existing user and a stored post with counters \<open>(L, D)\<close>,
  the sequence like, dislike, like ends in state LIKED. From state NONE all three
  requests answer 200 and the counters end at \<open>(L + 1, D)\<close>: flipping back and forth
  leaks no count. From LIKED the first like is rejected and the counters end at
  \<open>(L, D)\<close>. From DISLIKED the counters end at \<open>(L + 1, D - 1)\<close>.
\<close>

theorem flip_flop_by_start_state:
  assumes "userId req = Some uid" and "uid \<noteq> []"
    and "users s uid = Some usr" and "posts s (params_id req) = Some q"
  shows
  "(state_NONE s uid (params_id req) \<longrightarrow>
      fst (run fk (like_dislike_like req) s) =
        [OkCounters 200 ''Post liked successful'' (Some (likes q + 1)) (Some (dislikes q)),
         OkCounters 200 ''Post disliked successful'' (Some (likes q)) (Some (dislikes q + 1)),
         OkCounters 200 ''Post liked successful'' (Some (likes q + 1)) (Some (dislikes q))] \<and>
      state_LIKED (snd (run fk (like_dislike_like req) s)) uid (params_id req) \<and>
      likes_of (snd (run fk (like_dislike_like req) s)) (params_id req) = Some (likes q + 1) \<and>
      dislikes_of (snd (run fk (like_dislike_like req) s)) (params_id req) = Some (dislikes q)) \<and>
   (state_LIKED s uid (params_id req) \<longrightarrow>
      hd (fst (run fk (like_dislike_like req) s)) =
        Err 400 ''You have already liked this post.'' \<and>
      state_LIKED (snd (run fk (like_dislike_like req) s)) uid (params_id req) \<and>
      likes_of (snd (run fk (like_dislike_like req) s)) (params_id req) = Some (likes q) \<and>
      dislikes_of (snd (run fk (like_dislike_like req) s)) (params_id req) = Some (dislikes q)) \<and>
   (state_DISLIKED s uid (params_id req) \<longrightarrow>
      state_LIKED (snd (run fk (like_dislike_like req) s)) uid (params_id req) \<and>
      likes_of (snd (run fk (like_dislike_like req) s)) (params_id req) = Some (likes q + 1) \<and>
      dislikes_of (snd (run fk (like_dislike_like req) s)) (params_id req) =
        Some (dislikes q - 1))"
  using assms
  by (auto simp: ctrl_defs state_NONE_def state_LIKED_def state_DISLIKED_def likes_of_def
      dislikes_of_def like_dislike_like_def split: option.splits)

theorem flip_flop_by_start_state_witness:
  "state_NONE db0 ''alice'' ''p1'' \<and>
   state_LIKED (snd (run True (like_dislike_like (req_of ''alice'' ''p1'')) db0)) ''alice'' ''p1'' \<and>
   likes_of (snd (run True (like_dislike_like (req_of ''alice'' ''p1'')) db0)) ''p1'' = Some 1 \<and>
   dislikes_of (snd (run True (like_dislike_like (req_of ''alice'' ''p1'')) db0)) ''p1'' = Some 0 \<and>
   state_LIKED db_liked ''alice'' ''p1'' \<and>
   likes_of (snd (run True (like_dislike_like (req_of ''alice'' ''p1'')) db_liked)) ''p1'' = Some 1 \<and>
   state_DISLIKED db_disliked ''alice'' ''p1'' \<and>
   dislikes_of (snd (run True (like_dislike_like (req_of ''alice'' ''p1'')) db_disliked)) ''p1'' = Some 0"
proof -
  let ?r = "req_of ''alice'' ''p1''"
  let ?u = "\<lparr>username = ''alice'', verified = True\<rparr>"
  have u: "userId ?r = Some ''alice''" "''alice'' \<noteq> []" by (simp_all add: req_of_def)
  have p [simp]: "params_id ?r = ''p1''" by (simp add: req_of_def)
  have n: "state_NONE db0 ''alice'' ''p1''" by (simp add: state_NONE_def example_defs)
  have l: "state_LIKED db_liked ''alice'' ''p1''" by (simp add: state_LIKED_def example_defs)
  have d: "state_DISLIKED db_disliked ''alice'' ''p1''"
    by (simp add: state_DISLIKED_def example_defs)
  have t0: "users db0 ''alice'' = Some ?u"
    "posts db0 (params_id ?r) =
       Some \<lparr>authorId = ''alice'', likes = 0, dislikes = 0, data = no_post_data\<rparr>"
    by (simp_all add: example_defs)
  have t1: "users db_liked ''alice'' = Some ?u"
    "posts db_liked (params_id ?r) =
       Some \<lparr>authorId = ''alice'', likes = 1, dislikes = 0, data = no_post_data\<rparr>"
    by (simp_all add: example_defs)
  have t2: "users db_disliked ''alice'' = Some ?u"
    "posts db_disliked (params_id ?r) =
       Some \<lparr>authorId = ''alice'', likes = 0, dislikes = 1, data = no_post_data\<rparr>"
    by (simp_all add: example_defs)
  show ?thesis
    using n l d flip_flop_by_start_state [OF u t0, of True]
      flip_flop_by_start_state [OF u t1, of True] flip_flop_by_start_state [OF u t2, of True]
    by simp
qed

text \<open>
  Claim C10. Every interaction row that a like or a dislike request writes has exactly
  one flag set: a row that differs after like from what was stored before is
  \<open>liked = true\<close>, \<open>disliked = false\<close>, and after dislike it is \<open>liked = false\<close>,
  \<open>disliked = true\<close>. So a table in which every row has exactly one flag set, the empty
  table among them, keeps that property through every sequence of requests; a row with
  both flags false is never produced.
\<close>

theorem written_rows_have_one_flag:
  "(interactions (snd (likePostController fk req s)) k = Some i \<and> interactions s k \<noteq> Some i
      \<longrightarrow> i = \<lparr>liked = True, disliked = False\<rparr>) \<and>
   (interactions (snd (dislikePostController fk req s)) k = Some i \<and> interactions s k \<noteq> Some i
      \<longrightarrow> i = \<lparr>liked = False, disliked = True\<rparr>) \<and>
   (exactly_one s \<longrightarrow> exactly_one (snd (run fk ops s))) \<and>
   (interactions s = Map.empty \<longrightarrow> exactly_one (snd (run fk ops s)))"
proof (intro conjI impI)
  assume "interactions (snd (likePostController fk req s)) k = Some i \<and>
    interactions s k \<noteq> Some i"
  then show "i = \<lparr>liked = True, disliked = False\<rparr>" using like_written by blast
next
  assume "interactions (snd (dislikePostController fk req s)) k = Some i \<and>
    interactions s k \<noteq> Some i"
  then show "i = \<lparr>liked = False, disliked = True\<rparr>" using dislike_written by blast
next
  assume "exactly_one s"
  then show "exactly_one (snd (run fk ops s))" by (rule run_exactly_one)
next
  assume "interactions s = Map.empty"
  then have "exactly_one s" by (simp add: exactly_one_def)
  then show "exactly_one (snd (run fk ops s))" by (rule run_exactly_one)
qed

theorem written_rows_have_one_flag_witness:
  "interactions (snd (likePostController True (req_of ''alice'' ''p1'') db_disliked))
     (''alice'', ''p1'') = Some \<lparr>liked = True, disliked = False\<rparr> \<and>
   interactions db_disliked (''alice'', ''p1'') \<noteq> Some \<lparr>liked = True, disliked = False\<rparr> \<and>
   interactions (snd (dislikePostController True (req_of ''bob'' ''p1'') db0))
     (''bob'', ''p1'') = Some \<lparr>liked = False, disliked = True\<rparr> \<and>
   interactions db0 (''bob'', ''p1'') \<noteq> Some \<lparr>liked = False, disliked = True\<rparr> \<and>
   interactions db0 = Map.empty \<and> exactly_one db0 \<and>
   exactly_one (snd (run True [(Like, req_of ''alice'' ''p1''),
                               (Dislike, req_of ''bob'' ''p1'')] db0))"
proof -
  let ?ops = "[(Like, req_of ''alice'' ''p1''), (Dislike, req_of ''bob'' ''p1'')]"
  have e: "interactions db0 = Map.empty" by (simp add: db0_def)
  have x: "exactly_one db0" by (simp add: exactly_one_def db0_def)
  have a: "interactions (snd (likePostController True (req_of ''alice'' ''p1'') db_disliked))
     (''alice'', ''p1'') = Some \<lparr>liked = True, disliked = False\<rparr> \<and>
     interactions db_disliked (''alice'', ''p1'') \<noteq> Some \<lparr>liked = True, disliked = False\<rparr>"
    by (simp add: ctrl_defs example_defs)
  have b: "interactions (snd (dislikePostController True (req_of ''bob'' ''p1'') db0))
     (''bob'', ''p1'') = Some \<lparr>liked = False, disliked = True\<rparr> \<and>
     interactions db0 (''bob'', ''p1'') \<noteq> Some \<lparr>liked = False, disliked = True\<rparr>"
    by (simp add: ctrl_defs example_defs)
  note t = written_rows_have_one_flag [of True _ _ _ _ ?ops]
  have "exactly_one (snd (run True ?ops db0))"
    using t [of _ db0, THEN conjunct2, THEN conjunct2, THEN conjunct1] x
      t [of _ db0, THEN conjunct2, THEN conjunct2, THEN conjunct2] e
      t [of "req_of ''alice'' ''p1''" db_disliked "(''alice'', ''p1'')"
         "\<lparr>liked = True, disliked = False\<rparr>", THEN conjunct1]
      t [of "req_of ''bob'' ''p1''" db0 "(''bob'', ''p1'')"
         "\<lparr>liked = False, disliked = True\<rparr>", THEN conjunct2, THEN conjunct1] a b
    by blast
  then show ?thesis using a b e x by blast
qed

section \<open>Checks made before the reaction engine runs\<close>

lemmas fav_defs = favoritePostController_def unfavoritePostController_def
  createCommentController_def favorite_create_def favorite_delete_def comment_create_def
  refs_ok_def user_verified_def

lemma verification_gate_siblings:
  "userId req = Some uid \<Longrightarrow> uid \<noteq> [] \<Longrightarrow> \<not> user_verified s uid \<Longrightarrow>
   favoritePostController fk req s = (Err 403 ''User is not verified!'', s) \<and>
   unfavoritePostController fk req s = (Err 403 ''User is not verified!'', s) \<and>
   createCommentController fk req s = (Err 403 ''User is not verified!'', s)"
  by (simp add: favoritePostController_def unfavoritePostController_def
      createCommentController_def)

lemma missing_user_rejected:
  "userId req = None \<or> userId req = Some [] \<Longrightarrow>
   likePostController fk req s = (Err 400 ''User ID is required.'', s) \<and>
   dislikePostController fk req s = (Err 400 ''User ID is required.'', s)"
  by (auto simp: likePostController_def dislikePostController_def)

text \<open>
  Claim C2. The user \<open>bob\<close> of the example data has \<open>verified = false\<close>. The favorite,
  unfavorite and comment controllers answer 403 to an unverified caller
  (\<open>verification_gate_siblings\<close>), but the like and dislike controllers never read the
  user: bob's like and dislike answer 200, store his interaction row and move the
  counters of the post.
\<close>

theorem unverified_user_reacts:
  "\<not> user_verified db0 ''bob'' \<and>
   fst (likePostController fk (req_of ''bob'' ''p1'') db0) =
     OkCounters 200 ''Post liked successful'' (Some 1) (Some 0) \<and>
   interactions (snd (likePostController fk (req_of ''bob'' ''p1'') db0)) (''bob'', ''p1'') =
     Some \<lparr>liked = True, disliked = False\<rparr> \<and>
   likes_of (snd (likePostController fk (req_of ''bob'' ''p1'') db0)) ''p1'' = Some 1 \<and>
   fst (dislikePostController fk (req_of ''bob'' ''p1'') db0) =
     OkCounters 200 ''Post disliked successful'' (Some 0) (Some 1) \<and>
   interactions (snd (dislikePostController fk (req_of ''bob'' ''p1'') db0)) (''bob'', ''p1'') =
     Some \<lparr>liked = False, disliked = True\<rparr> \<and>
   dislikes_of (snd (dislikePostController fk (req_of ''bob'' ''p1'') db0)) ''p1'' = Some 1"
  by (simp add: ctrl_defs user_verified_def likes_of_def dislikes_of_def example_defs)

text \<open>
  Claim C9. The like and dislike controllers never look the post up before writing, and
  no input makes them answer 404. For the post id \<open>p9\<close>, which the example data do not
  store, both answer 500: with enforced foreign keys the row creation throws and nothing
  is written; without them the interaction row is written first and the counter update
  throws, so the row stays behind for a post that does not exist. (The other half of the
  claim holds: a missing user id is answered 400 before any write,
  \<open>missing_user_rejected\<close>.)
\<close>

theorem missing_post_not_reported:
  "posts db0 ''p9'' = None \<and>
   likePostController True (req_of ''alice'' ''p9'') db0 =
     (Err 500 ''Failed to like the post.'', db0) \<and>
   dislikePostController True (req_of ''alice'' ''p9'') db0 =
     (Err 500 ''Failed to dislike the post.'', db0) \<and>
   fst (likePostController False (req_of ''alice'' ''p9'') db0) =
     Err 500 ''Failed to like the post.'' \<and>
   interactions (snd (likePostController False (req_of ''alice'' ''p9'') db0)) (''alice'', ''p9'') =
     Some \<lparr>liked = True, disliked = False\<rparr> \<and>
   fst (dislikePostController False (req_of ''alice'' ''p9'') db0) =
     Err 500 ''Failed to dislike the post.'' \<and>
   interactions (snd (dislikePostController False (req_of ''alice'' ''p9'') db0)) (''alice'', ''p9'') =
     Some \<lparr>liked = False, disliked = True\<rparr> \<and>
   fst (likePostController fk req s) \<noteq> Err 404 m \<and>
   fst (dislikePostController fk req s) \<noteq> Err 404 m"
proof -
  have never: "fst (likePostController fk req s) \<noteq> Err 404 m \<and>
    fst (dislikePostController fk req s) \<noteq> Err 404 m"
    by (auto simp: ctrl_defs split: option.splits)
  have here: "posts db0 ''p9'' = None \<and>
   likePostController True (req_of ''alice'' ''p9'') db0 =
     (Err 500 ''Failed to like the post.'', db0) \<and>
   dislikePostController True (req_of ''alice'' ''p9'') db0 =
     (Err 500 ''Failed to dislike the post.'', db0) \<and>
   fst (likePostController False (req_of ''alice'' ''p9'') db0) =
     Err 500 ''Failed to like the post.'' \<and>
   interactions (snd (likePostController False (req_of ''alice'' ''p9'') db0)) (''alice'', ''p9'') =
     Some \<lparr>liked = True, disliked = False\<rparr> \<and>
   fst (dislikePostController False (req_of ''alice'' ''p9'') db0) =
     Err 500 ''Failed to dislike the post.'' \<and>
   interactions (snd (dislikePostController False (req_of ''alice'' ''p9'') db0)) (''alice'', ''p9'') =
     Some \<lparr>liked = False, disliked = True\<rparr>"
    by (simp add: ctrl_defs example_defs)
  from here never show ?thesis by blast
qed

section \<open>The favorite state machine\<close>

text \<open>
  Claim C8. For a verified user and a post (a stored one, when foreign keys are
  enforced): favorite without a Favorite row stores the row and answers 200; favorite
  with the row answers 400 "You have already favorited this post." and changes nothing;
  unfavorite with the row deletes it and answers 200; unfavorite without the row answers
  400 "You have not favorited this post." and changes nothing. Hence favorite,
  unfavorite, favorite in sequence answer 200 each, and the second of two consecutive
  favorite requests is rejected.
\<close>

theorem favorite_state_machine:
  assumes "userId req = Some uid" and "uid \<noteq> []" and "user_verified s uid"
    and "fk \<longrightarrow> posts s (params_id req) \<noteq> None"
  shows
  "((uid, params_id req) \<notin> favorites s \<longrightarrow>
      favoritePostController fk req s =
        (OkMessage 200 ''Post favorited successfully'',
         s\<lparr>favorites := insert (uid, params_id req) (favorites s)\<rparr>)) \<and>
   ((uid, params_id req) \<in> favorites s \<longrightarrow>
      favoritePostController fk req s =
        (Err 400 ''You have already favorited this post.'', s)) \<and>
   ((uid, params_id req) \<in> favorites s \<longrightarrow>
      unfavoritePostController fk req s =
        (OkMessage 200 ''Post unfavorited successfully'',
         s\<lparr>favorites := favorites s - {(uid, params_id req)}\<rparr>)) \<and>
   ((uid, params_id req) \<notin> favorites s \<longrightarrow>
      unfavoritePostController fk req s =
        (Err 400 ''You have not favorited this post.'', s)) \<and>
   ((uid, params_id req) \<notin> favorites s \<longrightarrow>
      fst (fav_run fk [(Favorite, req), (Unfavorite, req), (Favorite, req)] s) =
        [OkMessage 200 ''Post favorited successfully'',
         OkMessage 200 ''Post unfavorited successfully'',
         OkMessage 200 ''Post favorited successfully'']) \<and>
   fst (fav_run fk [(Favorite, req), (Favorite, req)] s) ! 1 =
     Err 400 ''You have already favorited this post.''"
  using assms by (auto simp: fav_defs split: option.splits)

theorem favorite_state_machine_witness:
  "(''alice'', ''p1'') \<notin> favorites db0 \<and>
   fst (favoritePostController True (req_of ''alice'' ''p1'') db0) =
     OkMessage 200 ''Post favorited successfully'' \<and>
   (''alice'', ''p1'') \<in> favorites (snd (favoritePostController True (req_of ''alice'' ''p1'') db0)) \<and>
   (''alice'', ''p1'') \<in> favorites db_full \<and>
   favoritePostController True (req_of ''alice'' ''p1'') db_full =
     (Err 400 ''You have already favorited this post.'', db_full) \<and>
   fst (unfavoritePostController True (req_of ''alice'' ''p1'') db_full) =
     OkMessage 200 ''Post unfavorited successfully'' \<and>
   (''alice'', ''p1'') \<notin> favorites (snd (unfavoritePostController True (req_of ''alice'' ''p1'') db_full)) \<and>
   unfavoritePostController True (req_of ''alice'' ''p1'') db0 =
     (Err 400 ''You have not favorited this post.'', db0) \<and>
   fst (fav_run True [(Favorite, req_of ''alice'' ''p1''), (Unfavorite, req_of ''alice'' ''p1''),
                      (Favorite, req_of ''alice'' ''p1'')] db0) =
     [OkMessage 200 ''Post favorited successfully'',
      OkMessage 200 ''Post unfavorited successfully'',
      OkMessage 200 ''Post favorited successfully'']"
proof -
  let ?r = "req_of ''alice'' ''p1''"
  have u: "userId ?r = Some ''alice''" "''alice'' \<noteq> []" by (simp_all add: req_of_def)
  have p: "params_id ?r = ''p1''" by (simp add: req_of_def)
  have v0: "user_verified db0 ''alice''" "True \<longrightarrow> posts db0 (params_id ?r) \<noteq> None"
    by (simp_all add: user_verified_def example_defs)
  have v1: "user_verified db_full ''alice''" "True \<longrightarrow> posts db_full (params_id ?r) \<noteq> None"
    by (simp_all add: user_verified_def example_defs)
  have m0: "(''alice'', params_id ?r) \<notin> favorites db0" by (simp add: example_defs)
  have m1: "(''alice'', params_id ?r) \<in> favorites db_full" by (simp add: example_defs)
  note t0 = favorite_state_machine [OF u v0]
  note t1 = favorite_state_machine [OF u v1]
  have a: "favoritePostController True ?r db0 =
        (OkMessage 200 ''Post favorited successfully'',
         db0\<lparr>favorites := insert (''alice'', params_id ?r) (favorites db0)\<rparr>)"
    using t0 m0 by blast
  have b: "favoritePostController True ?r db_full =
        (Err 400 ''You have already favorited this post.'', db_full)"
    using t1 m1 by blast
  have c: "unfavoritePostController True ?r db_full =
        (OkMessage 200 ''Post unfavorited successfully'',
         db_full\<lparr>favorites := favorites db_full - {(''alice'', params_id ?r)}\<rparr>)"
    using t1 m1 by blast
  have d: "unfavoritePostController True ?r db0 =
        (Err 400 ''You have not favorited this post.'', db0)"
    using t0 m0 by blast
  have e: "fst (fav_run True [(Favorite, ?r), (Unfavorite, ?r), (Favorite, ?r)] db0) =
        [OkMessage 200 ''Post favorited successfully'',
         OkMessage 200 ''Post unfavorited successfully'',
         OkMessage 200 ''Post favorited successfully'']"
    using t0 m0 by blast
  have a1: "fst (favoritePostController True ?r db0) =
     OkMessage 200 ''Post favorited successfully''"
    "(''alice'', ''p1'') \<in> favorites (snd (favoritePostController True ?r db0))"
    by (simp_all add: a p)
  have c1: "fst (unfavoritePostController True ?r db_full) =
     OkMessage 200 ''Post unfavorited successfully''"
    "(''alice'', ''p1'') \<notin> favorites (snd (unfavoritePostController True ?r db_full))"
    by (simp_all add: c p)
  have m0': "(''alice'', ''p1'') \<notin> favorites db0" using m0 by (simp add: p)
  have m1': "(''alice'', ''p1'') \<in> favorites db_full" using m1 by (simp add: p)
  from m0' m1' a1 b c1 d e show ?thesis by blast
qed

section \<open>Deleting a post\<close>

lemmas delete_defs = deletePostController_def interaction_deleteMany_def
  comment_deleteMany_def favorite_deleteMany_def post_delete_def has_children_def

lemma cascade_leaves_no_children:
  "\<not> has_children
       (favorite_deleteMany (comment_deleteMany (interaction_deleteMany s pid) pid) pid) pid"
  by (auto simp: interaction_deleteMany_def comment_deleteMany_def favorite_deleteMany_def
      has_children_def)

text \<open>
  The cascade is not one atomic unit: the four deletions are separate statements. In the
  example the author's delete request fails at the fourth storage call
  (\<^verbatim>\<open>favorite.deleteMany\<close>): the answer is 500, the interaction and the comment of the
  post are gone, and the post and its favorite are still stored.
\<close>

theorem delete_not_atomic_counterexample:
  "fst (deletePostController True (Some 3) (req_of ''alice'' ''p1'') db_full) =
     Err 500 ''An unexpected error occurred'' \<and>
   snd (deletePostController True (Some 3) (req_of ''alice'' ''p1'') db_full) \<noteq> db_full \<and>
   interactions db_full (''alice'', ''p1'') \<noteq> None \<and>
   interactions (snd (deletePostController True (Some 3) (req_of ''alice'' ''p1'') db_full))
     (''alice'', ''p1'') = None \<and>
   comments db_full \<noteq> [] \<and>
   comments (snd (deletePostController True (Some 3) (req_of ''alice'' ''p1'') db_full)) = [] \<and>
   posts (snd (deletePostController True (Some 3) (req_of ''alice'' ''p1'') db_full)) ''p1''
     \<noteq> None \<and>
   (''alice'', ''p1'') \<in>
     favorites (snd (deletePostController True (Some 3) (req_of ''alice'' ''p1'') db_full))"
proof -
  let ?s = "snd (deletePostController True (Some 3) (req_of ''alice'' ''p1'') db_full)"
  have a: "fst (deletePostController True (Some 3) (req_of ''alice'' ''p1'') db_full) =
     Err 500 ''An unexpected error occurred''"
    by (simp add: delete_defs example_defs)
  have b: "comments db_full \<noteq> []" "comments ?s = []"
    by (simp_all add: delete_defs example_defs)
  have c: "interactions db_full (''alice'', ''p1'') \<noteq> None"
    "interactions ?s (''alice'', ''p1'') = None"
    by (simp_all add: delete_defs example_defs)
  have d: "posts ?s ''p1'' \<noteq> None" "(''alice'', ''p1'') \<in> favorites ?s"
    by (simp_all add: delete_defs example_defs)
  have e: "?s \<noteq> db_full" using b by metis
  from a b c d e show ?thesis by blast
qed

text \<open>
  Claim C5, as amended. For the author of a stored post, the controller deletes in the order
  interactions, comments, favorites, post, each deletion on its own. When no storage call
  fails it answers 200 and the post and every child row of the post are gone. When the
  call at position \<open>k\<close> fails it answers 500, the post is still stored, and the deletions
  made by the calls before \<open>k\<close> stay: the stored data are sure to be as before the
  request only when the read of the post or the first deletion fails. In every outcome a
  post that is gone has no child rows left.
\<close>

theorem delete_cascade_steps:
  assumes "userId req = Some uid" and "uid \<noteq> []"
    and "posts s (params_id req) = Some q" and "authorId q = uid"
  shows
  "((\<forall>k. fault = Some k \<longrightarrow> 4 < k) \<longrightarrow>
      deletePostController fk fault req s =
        (OkMessage 200 ''Post deleted successfully'',
         (favorite_deleteMany
            (comment_deleteMany (interaction_deleteMany s (params_id req)) (params_id req))
            (params_id req))\<lparr>posts := (posts s)(params_id req := None)\<rparr>)) \<and>
   (fault = Some 0 \<or> fault = Some 1 \<longrightarrow>
      deletePostController fk fault req s = (Err 500 ''An unexpected error occurred'', s)) \<and>
   (fault = Some 2 \<longrightarrow>
      deletePostController fk fault req s =
        (Err 500 ''An unexpected error occurred'', interaction_deleteMany s (params_id req))) \<and>
   (fault = Some 3 \<longrightarrow>
      deletePostController fk fault req s =
        (Err 500 ''An unexpected error occurred'',
         comment_deleteMany (interaction_deleteMany s (params_id req)) (params_id req))) \<and>
   (fault = Some 4 \<longrightarrow>
      deletePostController fk fault req s =
        (Err 500 ''An unexpected error occurred'',
         favorite_deleteMany
           (comment_deleteMany (interaction_deleteMany s (params_id req)) (params_id req))
           (params_id req))) \<and>
   (fst (deletePostController fk fault req s) \<noteq> OkMessage 200 ''Post deleted successfully''
      \<longrightarrow> posts (snd (deletePostController fk fault req s)) (params_id req) = Some q) \<and>
   (posts (snd (deletePostController fk fault req s)) (params_id req) = None
      \<longrightarrow> \<not> has_children (snd (deletePostController fk fault req s)) (params_id req))"
proof -
  let ?p = "params_id req"
  let ?s3 = "favorite_deleteMany (comment_deleteMany (interaction_deleteMany s ?p) ?p) ?p"
  have nc: "\<not> has_children ?s3 ?p" by (rule cascade_leaves_no_children)
  have ps: "posts ?s3 = posts s"
    by (simp add: interaction_deleteMany_def comment_deleteMany_def favorite_deleteMany_def)
  have pd: "post_delete fk ?s3 ?p = Inr (?s3\<lparr>posts := (posts s)(?p := None)\<rparr>)"
    using nc ps assms(3) by (simp add: post_delete_def)
  have nc': "\<not> has_children (?s3\<lparr>posts := (posts s)(?p := None)\<rparr>) ?p"
    using nc by (simp add: has_children_def)
  have ok: "(\<forall>k. fault = Some k \<longrightarrow> 4 < k) \<Longrightarrow>
      deletePostController fk fault req s =
        (OkMessage 200 ''Post deleted successfully'', ?s3\<lparr>posts := (posts s)(?p := None)\<rparr>)"
    using assms pd by (auto simp: deletePostController_def Let_def)
  have f01: "fault = Some 0 \<or> fault = Some 1 \<Longrightarrow>
      deletePostController fk fault req s = (Err 500 ''An unexpected error occurred'', s)"
    using assms by (auto simp: deletePostController_def)
  have f2: "fault = Some 2 \<Longrightarrow>
      deletePostController fk fault req s =
        (Err 500 ''An unexpected error occurred'', interaction_deleteMany s ?p)"
    using assms by (simp add: deletePostController_def)
  have f3: "fault = Some 3 \<Longrightarrow>
      deletePostController fk fault req s =
        (Err 500 ''An unexpected error occurred'',
         comment_deleteMany (interaction_deleteMany s ?p) ?p)"
    using assms by (simp add: deletePostController_def)
  have f4: "fault = Some 4 \<Longrightarrow>
      deletePostController fk fault req s = (Err 500 ''An unexpected error occurred'', ?s3)"
    using assms by (simp add: deletePostController_def)
  have cases: "(\<forall>k. fault = Some k \<longrightarrow> 4 < k) \<or> fault = Some 0 \<or> fault = Some 1 \<or>
    fault = Some 2 \<or> fault = Some 3 \<or> fault = Some 4"
  proof (cases fault)
    case None
    then show ?thesis by simp
  next
    case (Some n)
    have "4 < n \<or> n = 0 \<or> n = 1 \<or> n = 2 \<or> n = 3 \<or> n = 4" by arith
    with Some show ?thesis by simp
  qed
  have keep: "fst (deletePostController fk fault req s) \<noteq>
      OkMessage 200 ''Post deleted successfully'' \<Longrightarrow>
      posts (snd (deletePostController fk fault req s)) ?p = Some q"
    using cases ok f01 f2 f3 f4 assms(3)
    by (auto simp: interaction_deleteMany_def comment_deleteMany_def favorite_deleteMany_def)
  have gone: "posts (snd (deletePostController fk fault req s)) ?p = None \<Longrightarrow>
      \<not> has_children (snd (deletePostController fk fault req s)) ?p"
    using cases ok f01 f2 f3 f4 assms(3) nc'
    by (auto simp: interaction_deleteMany_def comment_deleteMany_def favorite_deleteMany_def)
  from ok f01 f2 f3 f4 keep gone show ?thesis by blast
qed

theorem delete_cascade_steps_witness:
  "fst (deletePostController True None (req_of ''alice'' ''p1'') db_full) =
     OkMessage 200 ''Post deleted successfully'' \<and>
   posts (snd (deletePostController True None (req_of ''alice'' ''p1'') db_full)) ''p1'' = None \<and>
   \<not> has_children (snd (deletePostController True None (req_of ''alice'' ''p1'') db_full)) ''p1'' \<and>
   deletePostController True (Some 1) (req_of ''alice'' ''p1'') db_full =
     (Err 500 ''An unexpected error occurred'', db_full) \<and>
   interactions (snd (deletePostController True (Some 2) (req_of ''alice'' ''p1'') db_full))
     (''alice'', ''p1'') = None \<and>
   comments (snd (deletePostController True (Some 3) (req_of ''alice'' ''p1'') db_full)) = [] \<and>
   favorites (snd (deletePostController True (Some 4) (req_of ''alice'' ''p1'') db_full)) = {} \<and>
   posts (snd (deletePostController True (Some 4) (req_of ''alice'' ''p1'') db_full)) ''p1'' \<noteq> None"
proof -
  let ?r = "req_of ''alice'' ''p1''"
  let ?q = "\<lparr>authorId = ''alice'', likes = 1, dislikes = 0, data = no_post_data\<rparr>"
  have u: "userId ?r = Some ''alice''" "''alice'' \<noteq> []" by (simp_all add: req_of_def)
  have p: "params_id ?r = ''p1''" by (simp add: req_of_def)
  have q: "posts db_full (params_id ?r) = Some ?q" "authorId ?q = ''alice''"
    by (simp_all add: example_defs)
  note t = delete_cascade_steps [OF u q]
  have h0: "\<forall>k. (None::nat option) = Some k \<longrightarrow> 4 < k" by simp
  have r0: "deletePostController True None ?r db_full =
        (OkMessage 200 ''Post deleted successfully'',
         (favorite_deleteMany
            (comment_deleteMany (interaction_deleteMany db_full (params_id ?r)) (params_id ?r))
            (params_id ?r))\<lparr>posts := (posts db_full)(params_id ?r := None)\<rparr>)"
    using t [of None True] h0 by blast
  have r1: "deletePostController True (Some 1) ?r db_full =
        (Err 500 ''An unexpected error occurred'', db_full)"
    using t [of "Some 1" True] by blast
  have r2: "deletePostController True (Some 2) ?r db_full =
        (Err 500 ''An unexpected error occurred'', interaction_deleteMany db_full (params_id ?r))"
    using t [of "Some 2" True] by blast
  have r3: "deletePostController True (Some 3) ?r db_full =
        (Err 500 ''An unexpected error occurred'',
         comment_deleteMany (interaction_deleteMany db_full (params_id ?r)) (params_id ?r))"
    using t [of "Some 3" True] by blast
  have r4: "deletePostController True (Some 4) ?r db_full =
        (Err 500 ''An unexpected error occurred'',
         favorite_deleteMany
           (comment_deleteMany (interaction_deleteMany db_full (params_id ?r)) (params_id ?r))
           (params_id ?r))"
    using t [of "Some 4" True] by blast
  have g0: "posts (snd (deletePostController True None ?r db_full)) (params_id ?r) = None"
    by (simp add: r0)
  have c0: "\<not> has_children (snd (deletePostController True None ?r db_full)) (params_id ?r)"
    using t [of None True] g0 by blast
  have n4: "fst (deletePostController True (Some 4) ?r db_full) \<noteq>
    OkMessage 200 ''Post deleted successfully''"
    by (simp add: r4)
  have k4: "posts (snd (deletePostController True (Some 4) ?r db_full)) (params_id ?r) = Some ?q"
    using t [of "Some 4" True] n4 by blast
  have e0: "fst (deletePostController True None ?r db_full) =
     OkMessage 200 ''Post deleted successfully''" by (simp add: r0)
  have e2: "interactions (snd (deletePostController True (Some 2) ?r db_full))
     (''alice'', ''p1'') = None"
    by (simp add: r2 p interaction_deleteMany_def)
  have "comments (comment_deleteMany (interaction_deleteMany db_full ''p1'') ''p1'') = []"
    by (simp add: interaction_deleteMany_def comment_deleteMany_def
        db0_def db_liked_def db_full_def)
  then have e3: "comments (snd (deletePostController True (Some 3) ?r db_full)) = []"
    by (simp only: r3 p snd_conv)
  have "favorites (favorite_deleteMany
           (comment_deleteMany (interaction_deleteMany db_full ''p1'') ''p1'') ''p1'') = {}"
    by (simp add: interaction_deleteMany_def comment_deleteMany_def
        favorite_deleteMany_def db0_def db_liked_def db_full_def)
  then have e4: "favorites (snd (deletePostController True (Some 4) ?r db_full)) = {}"
    by (simp only: r4 p snd_conv)
  have k4': "posts (snd (deletePostController True (Some 4) ?r db_full)) ''p1'' \<noteq> None"
    using k4 by (simp add: p)
  from e0 g0 c0 r1 e2 e3 e4 k4' show ?thesis by (simp add: p)
qed

section \<open>The leaderboard\<close>

lemma foldl_plus_sum_list: "foldl (\<lambda>sum l. sum + l) a xs = a + sum_list (xs :: int list)"
  by (induction xs arbitrary: a) simp_all

lemma insert_by_insort_key:
  "insert_by (\<lambda>a b. f b - f a) x xs = insort_key (\<lambda>u. - f u) x (xs :: 'a list)"
  for f :: "'a \<Rightarrow> int"
  by (induction xs) simp_all

lemma array_sort_sort_key:
  "array_sort (\<lambda>a b. f b - f a) xs = sort_key (\<lambda>u. - f u) xs" for f :: "'a \<Rightarrow> int"
  by (induction xs) (simp_all add: array_sort_def sort_key_def insert_by_insort_key)

lemma top10Users_sort_key:
  "top10Users rows = take 10 (sort_key (\<lambda>u. - ul_totalLikes u) (userLikes rows))"
  by (simp add: top10Users_def array_sort_sort_key)

lemma length_userLikes: "length (userLikes rows) = length rows"
  by (simp add: userLikes_def)

lemma length_top10Users: "length (top10Users rows) = min 10 (length rows)"
  by (simp add: top10Users_sort_key length_userLikes min.commute)

lemma length_leaderboard: "length (getLeaderboardController rows) = min 10 (length rows)"
  by (simp add: getLeaderboardController_def length_top10Users)

lemma rank_leaderboard:
  "i < length (getLeaderboardController rows) \<Longrightarrow> rank (getLeaderboardController rows ! i) = i + 1"
  by (simp add: getLeaderboardController_def)

lemma user_likes_eta:
  "\<lparr>ul_id = ul_id u, ul_username = ul_username u, ul_postCount = ul_postCount u,
    ul_totalLikes = ul_totalLikes u\<rparr> = (u::user_likes)"
  by (cases u) simp

lemma entry_user_leaderboard: "map entry_user (getLeaderboardController rows) = top10Users rows"
proof -
  let ?t = "top10Users rows"
  have "map entry_user (getLeaderboardController rows) = map snd (zip [0 ..< length ?t] ?t)"
    by (simp add: getLeaderboardController_def entry_user_def split_def user_likes_eta
        comp_def del: map_snd_zip)
  then show ?thesis by simp
qed

lemma totalLikes_entry_user: "ul_totalLikes (entry_user e) = totalLikes e"
  by (simp add: entry_user_def)

lemma sorted_top10Users:
  "sorted_wrt (\<lambda>a b. ul_totalLikes b \<le> ul_totalLikes a) (top10Users rows)"
proof -
  let ?f = "\<lambda>u. - ul_totalLikes u"
  let ?xs = "sort_key ?f (userLikes rows)"
  have "sorted (map ?f ?xs)" by (rule sorted_sort_key)
  then have "sorted_wrt (\<lambda>a b. ul_totalLikes b \<le> ul_totalLikes a) ?xs"
    by (simp add: sorted_map)
  then have "sorted_wrt (\<lambda>a b. ul_totalLikes b \<le> ul_totalLikes a) (take 10 ?xs @ drop 10 ?xs)"
    by simp
  then show ?thesis unfolding top10Users_sort_key sorted_wrt_append by blast
qed

lemma sorted_leaderboard:
  "sorted_wrt (\<lambda>a b. totalLikes b \<le> totalLikes a) (getLeaderboardController rows)"
proof -
  have "sorted_wrt (\<lambda>a b. ul_totalLikes b \<le> ul_totalLikes a)
          (map entry_user (getLeaderboardController rows))"
    by (simp only: entry_user_leaderboard sorted_top10Users)
  then show ?thesis by (simp add: sorted_wrt_map totalLikes_entry_user)
qed

lemma stable_top10Users:
  "prefix (filter (\<lambda>u. ul_totalLikes u = k) (top10Users rows))
          (filter (\<lambda>u. ul_totalLikes u = k) (userLikes rows))"
proof -
  let ?f = "\<lambda>u. - ul_totalLikes u"
  have "filter (\<lambda>u. ?f u = - k) (sort_key ?f (userLikes rows)) =
        filter (\<lambda>u. ?f u = - k) (userLikes rows)"
    by (rule sort_key_stable)
  then have eq: "filter (\<lambda>u. ul_totalLikes u = k) (sort_key ?f (userLikes rows)) =
        filter (\<lambda>u. ul_totalLikes u = k) (userLikes rows)"
    by simp
  have "prefix (filter (\<lambda>u. ul_totalLikes u = k) (take 10 (sort_key ?f (userLikes rows))))
          (filter (\<lambda>u. ul_totalLikes u = k) (sort_key ?f (userLikes rows)))"
    by (rule filter_mono_prefix) (rule take_is_prefix)
  then show ?thesis by (simp only: eq top10Users_sort_key)
qed

lemma top10Users_are_top:
  "\<exists>rest. mset (top10Users rows @ rest) = mset (userLikes rows) \<and>
          (\<forall>e \<in> set (top10Users rows). \<forall>u \<in> set rest. ul_totalLikes u \<le> ul_totalLikes e)"
proof -
  let ?f = "\<lambda>u. - ul_totalLikes u"
  let ?xs = "sort_key ?f (userLikes rows)"
  have "sorted (map ?f ?xs)" by (rule sorted_sort_key)
  then have "sorted_wrt (\<lambda>a b. ul_totalLikes b \<le> ul_totalLikes a) ?xs"
    by (simp add: sorted_map)
  then have "sorted_wrt (\<lambda>a b. ul_totalLikes b \<le> ul_totalLikes a) (take 10 ?xs @ drop 10 ?xs)"
    by simp
  then have ord: "\<forall>e \<in> set (take 10 ?xs). \<forall>u \<in> set (drop 10 ?xs).
      ul_totalLikes u \<le> ul_totalLikes e"
    unfolding sorted_wrt_append by blast
  have "mset (take 10 ?xs @ drop 10 ?xs) = mset (userLikes rows)" by simp
  with ord show ?thesis unfolding top10Users_sort_key by blast
qed

text \<open>
  Claim C6. The total of a user is the sum of the likes of the user's posts, taken in
  the enumeration order of the users. The leaderboard has the ten first users of the
  list sorted by descending total (all of them when there are fewer): its totals
  descend, users with the same total appear in their enumeration order, every user left
  out has a total no higher than any user kept, and the entry at position \<open>i\<close> (from 0)
  has rank \<open>i + 1\<close>. For A with 5 likes, B with 10 and C with 10, in this order, the
  leaderboard is B with rank 1, C with rank 2, A with rank 3.
\<close>

theorem leaderboard_ranking:
  "map ul_totalLikes (userLikes rows) = map (\<lambda>u. sum_list (ur_posts u)) rows \<and>
   map ul_id (userLikes rows) = map ur_id rows \<and>
   length (getLeaderboardController rows) = min 10 (length rows) \<and>
   (\<forall>i < length (getLeaderboardController rows).
      rank (getLeaderboardController rows ! i) = i + 1) \<and>
   sorted_wrt (\<lambda>a b. totalLikes b \<le> totalLikes a) (getLeaderboardController rows) \<and>
   (\<forall>k. prefix
      (filter (\<lambda>u. ul_totalLikes u = k) (map entry_user (getLeaderboardController rows)))
      (filter (\<lambda>u. ul_totalLikes u = k) (userLikes rows))) \<and>
   (\<exists>rest. mset (map entry_user (getLeaderboardController rows) @ rest) = mset (userLikes rows) \<and>
      (\<forall>e \<in> set (getLeaderboardController rows). \<forall>u \<in> set rest.
         ul_totalLikes u \<le> totalLikes e)) \<and>
   getLeaderboardController abc_rows =
     [\<lparr>rank = 1, lb_userId = ''B'', lb_username = ''b'', postCount = 1, totalLikes = 10\<rparr>,
      \<lparr>rank = 2, lb_userId = ''C'', lb_username = ''c'', postCount = 2, totalLikes = 10\<rparr>,
      \<lparr>rank = 3, lb_userId = ''A'', lb_username = ''a'', postCount = 1, totalLikes = 5\<rparr>]"
proof (intro conjI)
  show "map ul_totalLikes (userLikes rows) = map (\<lambda>u. sum_list (ur_posts u)) rows"
    by (simp add: userLikes_def foldl_plus_sum_list)
  show "map ul_id (userLikes rows) = map ur_id rows"
    by (simp add: userLikes_def)
  show "length (getLeaderboardController rows) = min 10 (length rows)"
    by (rule length_leaderboard)
  show "\<forall>i < length (getLeaderboardController rows).
      rank (getLeaderboardController rows ! i) = i + 1"
    using rank_leaderboard by blast
  show "sorted_wrt (\<lambda>a b. totalLikes b \<le> totalLikes a) (getLeaderboardController rows)"
    by (rule sorted_leaderboard)
  show "\<forall>k. prefix
      (filter (\<lambda>u. ul_totalLikes u = k) (map entry_user (getLeaderboardController rows)))
      (filter (\<lambda>u. ul_totalLikes u = k) (userLikes rows))"
    by (simp only: entry_user_leaderboard stable_top10Users) simp
  show "\<exists>rest. mset (map entry_user (getLeaderboardController rows) @ rest) =
      mset (userLikes rows) \<and>
      (\<forall>e \<in> set (getLeaderboardController rows). \<forall>u \<in> set rest.
         ul_totalLikes u \<le> totalLikes e)"
  proof -
    obtain rest where r: "mset (top10Users rows @ rest) = mset (userLikes rows)"
      "\<forall>e \<in> set (top10Users rows). \<forall>u \<in> set rest. ul_totalLikes u \<le> ul_totalLikes e"
      using top10Users_are_top by blast
    have "\<forall>e \<in> set (getLeaderboardController rows). \<forall>u \<in> set rest.
         ul_totalLikes u \<le> totalLikes e"
    proof (intro ballI)
      fix e u
      assume e: "e \<in> set (getLeaderboardController rows)" and u: "u \<in> set rest"
      from e have "entry_user e \<in> set (map entry_user (getLeaderboardController rows))"
        by simp
      then have "entry_user e \<in> set (top10Users rows)" by (simp only: entry_user_leaderboard)
      with r(2) u have "ul_totalLikes u \<le> ul_totalLikes (entry_user e)" by blast
      then show "ul_totalLikes u \<le> totalLikes e" by (simp add: totalLikes_entry_user)
    qed
    with r(1) show ?thesis by (metis entry_user_leaderboard)
  qed
  show "getLeaderboardController abc_rows =
     [\<lparr>rank = 1, lb_userId = ''B'', lb_username = ''b'', postCount = 1, totalLikes = 10\<rparr>,
      \<lparr>rank = 2, lb_userId = ''C'', lb_username = ''c'', postCount = 2, totalLikes = 10\<rparr>,
      \<lparr>rank = 3, lb_userId = ''A'', lb_username = ''a'', postCount = 1, totalLikes = 5\<rparr>]"
    by (simp add: getLeaderboardController_def top10Users_def userLikes_def array_sort_def
        abc_rows_def upt_rec)
qed

theorem leaderboard_ranking_witness:
  "(2::nat) < length (getLeaderboardController abc_rows) \<and>
   rank (getLeaderboardController abc_rows ! 2) = 3 \<and>
   length (getLeaderboardController abc_rows) = 3 \<and>
   map ul_totalLikes (userLikes abc_rows) = [5, 10, 10] \<and>
   map lb_userId (getLeaderboardController abc_rows) = [''B'', ''C'', ''A'']"
proof -
  note t = leaderboard_ranking [of abc_rows]
  have l: "length (getLeaderboardController abc_rows) = 3"
    using t by (simp add: abc_rows_def)
  then have i: "(2::nat) < length (getLeaderboardController abc_rows)" by simp
  have r: "rank (getLeaderboardController abc_rows ! 2) = 2 + 1" using t i by blast
  have s: "map ul_totalLikes (userLikes abc_rows) = [5, 10, 10]"
    using t by (simp add: abc_rows_def)
  have "getLeaderboardController abc_rows =
     [\<lparr>rank = 1, lb_userId = ''B'', lb_username = ''b'', postCount = 1, totalLikes = 10\<rparr>,
      \<lparr>rank = 2, lb_userId = ''C'', lb_username = ''c'', postCount = 2, totalLikes = 10\<rparr>,
      \<lparr>rank = 3, lb_userId = ''A'', lb_username = ''a'', postCount = 1, totalLikes = 5\<rparr>]"
    using t by blast
  then have m: "map lb_userId (getLeaderboardController abc_rows) = [''B'', ''C'', ''A'']"
    by simp
  from i r l s m show ?thesis by simp
qed

end
